theory Spec2Isabelle
  imports Complex_Main "HOL-Library.Sublist"
begin

section \<open>The data check of OpenStreetMap places (datacheck.py)\<close>

text \<open>
  The module reads the Overpass output and the file of earlier URL checks, prunes that
  file's old entries, checks every element's tags and writes both files back. Python
  strings are modelled as UTF-8 byte lists, dictionaries loaded from JSON as association
  lists in insertion order, read with \<open>map_of\<close>. Console output (\<open>print\<close>) is left out.
\<close>

subsection \<open>Strings\<close>

text \<open>
  A string literal of the logic cannot end in an apostrophe, so a message that does is
  written with the last one appended.
\<close>

abbreviation (input) apos :: string where
  "apos \<equiv> [CHR 0x27]"

text \<open>\<open>s.startswith(p)\<close> and \<open>sub in s\<close> on strings.\<close>

definition startswith :: "string \<Rightarrow> string \<Rightarrow> bool" where
  "startswith s p = prefix p s"

definition str_in :: "string \<Rightarrow> string \<Rightarrow> bool" where
  "str_in sub s = sublist sub s"

text \<open>\<open>str(n)\<close> of an integer, as \<open>%s\<close> and an f-string print it.\<close>

definition digit_char :: "nat \<Rightarrow> char" where
  "digit_char d = ''0123456789'' ! d"

fun str_nat :: "nat \<Rightarrow> string" where
  "str_nat n = (if n < 10 then [digit_char n] else str_nat (n div 10) @ [digit_char (n mod 10)])"

declare str_nat.simps [simp del]

definition str_int :: "int \<Rightarrow> string" where
  "str_int i = (if i < 0 then CHR ''-'' # str_nat (nat (- i)) else str_nat (nat i))"

text \<open>
  \<open>name.replace('"', '\<dots>')\<close>: every double quote (byte 0x22) becomes the right double
  quotation mark U+201D, which is the three bytes E2 80 9D in UTF-8.
\<close>

definition replace_quotes :: "string \<Rightarrow> string" where
  "replace_quotes s =
     concat (map (\<lambda>c. if c = CHR 0x22 then [CHR 0xE2, CHR 0x80, CHR 0x9D] else [c]) s)"

subsection \<open>Dictionaries\<close>

type_synonym tags = "(string \<times> string) list"

text \<open>\<open>key in d\<close>, \<open>d.get(key, default)\<close> and \<open>del d[key]\<close>.\<close>

definition has_key :: "string \<Rightarrow> (string \<times> 'v) list \<Rightarrow> bool" where
  "has_key k d = (map_of d k \<noteq> None)"

definition dict_get :: "(string \<times> 'v) list \<Rightarrow> string \<Rightarrow> 'v \<Rightarrow> 'v" where
  "dict_get d k dflt = (case map_of d k of None \<Rightarrow> dflt | Some v \<Rightarrow> v)"

definition dict_del :: "string \<Rightarrow> (string \<times> 'v) list \<Rightarrow> (string \<times> 'v) list" where
  "dict_del k d = filter (\<lambda>kv. fst kv \<noteq> k) d"

subsection \<open>The module's surroundings\<close>

text \<open>
  The exceptions that escape the module's own code: \<open>None.get\<close> is an AttributeError,
  reading a local that was never assigned an UnboundLocalError, \<open>strptime\<close> on a string
  that is no date a ValueError, a missing dictionary key a KeyError.
\<close>

datatype error = AttributeError | UnboundLocalError | ValueError | KeyError

text \<open>
  One entry of the URL data file, \<open>{"date": ..., "isOk": ..., "text": ...}\<close>; the value
  \<open>is_url_ok\<close> returns has the same three keys.
\<close>

record url_entry =
  entry_date :: string
  entry_isOk :: bool
  entry_text :: string

type_synonym url_dict = "(string \<times> url_entry) list"

text \<open>
  What \<open>requests.get(url, timeout=5)\<close> does: it raises (the class name of the exception
  is kept) or returns a response with a status code.
\<close>

datatype response = Raised string | Status int

record parse_result =
  scheme :: string
  netloc :: string

text \<open>
  The libraries and the two constants computed at import time are parameters:
  \<open>urlparse\<close> (\<open>None\<close> when it raises), \<open>requests.get\<close> (its answer may depend on the
  requests made before it, given as the list of their URLs), \<open>validate_email\<close>
  (\<open>Some msg\<close> when it raises EmailNotValidError with that message) and
  \<open>datetime.strptime(_, '%Y-%m-%d')\<close> (the day number of the date, \<open>None\<close> when it raises
  ValueError, so that the difference of two results is \<open>delta.days\<close>).
\<close>

record env =
  TIMESTAMP :: string
  DATE :: string
  urlparse :: "string \<Rightarrow> parse_result option"
  requests_get :: "string list \<Rightarrow> string \<Rightarrow> response"
  validate_email :: "string \<Rightarrow> string option"
  strptime :: "string \<Rightarrow> int option"

text \<open>
  The state a URL check works on: the global \<open>url_data\<close> and the network, as the list
  of the URLs requested so far.
\<close>

record world =
  url_data :: url_dict
  net_log :: "string list"

subsection \<open>Checking a URL\<close>

definition is_url_format_valid :: "env \<Rightarrow> string \<Rightarrow> bool" where
  "is_url_format_valid ev url =
     (case urlparse ev url of
        None \<Rightarrow> False
      | Some result \<Rightarrow> scheme result \<noteq> [] \<and> netloc result \<noteq> [])"

definition is_url_ok :: "env \<Rightarrow> string \<Rightarrow> world \<Rightarrow> url_entry \<times> world" where
  "is_url_ok ev url w =
     (case map_of (url_data w) url of
        Some e \<Rightarrow>
          (\<lparr>entry_date = DATE ev, entry_isOk = entry_isOk e, entry_text = entry_text e\<rparr>, w)
      | None \<Rightarrow>
          if is_url_format_valid ev url then
            (case requests_get ev (net_log w) url of
               Raised cls \<Rightarrow>
                 (\<lparr>entry_date = DATE ev, entry_isOk = False,
                   entry_text = ''Exception: '' @ cls\<rparr>,
                  w\<lparr>net_log := net_log w @ [url]\<rparr>)
             | Status status_code \<Rightarrow>
                 (if status_code < 400 then
                    \<lparr>entry_date = DATE ev, entry_isOk = True, entry_text = ''OK''\<rparr>
                  else if status_code = 403 then
                    \<lparr>entry_date = DATE ev, entry_isOk = True,
                     entry_text = ''Can't do full check: HTTP response: Forbidden''\<rparr>
                  else if status_code = 429 then
                    \<lparr>entry_date = DATE ev, entry_isOk = True,
                     entry_text = ''Can't do full check: HTTP response: Too Many Requests''\<rparr>
                  else
                    \<lparr>entry_date = DATE ev, entry_isOk = False,
                     entry_text = ''HTTP response code '' @ str_int status_code\<rparr>,
                  w\<lparr>net_log := net_log w @ [url]\<rparr>))
          else
            (\<lparr>entry_date = DATE ev, entry_isOk = False, entry_text = ''No valid URL format''\<rparr>,
             w))"

subsection \<open>The input and the report\<close>

text \<open>
  An element of the Overpass output. \<open>id\<close> and \<open>type\<close> are read with \<open>[...]\<close>, the
  other keys with \<open>.get\<close>, so they may be missing. The coordinates are only copied.
\<close>

record center =
  center_lat :: "real option"
  center_lon :: "real option"

record osm_element =
  el_id :: int
  el_type :: string
  el_lat :: "real option"
  el_lon :: "real option"
  el_center :: "center option"
  el_tags :: "tags option"

record overpass_data =
  elements :: "osm_element list"

text \<open>\<open>osm_element.get("tags", {})\<close>\<close>

definition tags_of :: "osm_element \<Rightarrow> tags" where
  "tags_of e = (case el_tags e of None \<Rightarrow> [] | Some t \<Rightarrow> t)"

text \<open>
  One entry of \<open>features\<close> as it is appended: the keys of \<open>properties\<close> and the
  \<open>coordinates\<close> of the geometry, \<open>[lon, lat]\<close>. A key that may be absent from the
  dictionary is an option; \<open>undefined\<close> and \<open>issues\<close> are \<open>None\<close> once deleted.
\<close>

record feature =
  prop_id :: int
  prop_type :: string
  prop_name :: string
  prop_diet_vegan :: "string option"
  prop_undefined :: "string list option"
  prop_issues :: "string list option"
  prop_issue_number :: nat
  coordinates :: "real option \<times> real option"

record check_result =
  timestamp :: string
  result_features :: "feature list"

text \<open>A local variable of \<open>check_data\<close> that outlives the loop's iterations.\<close>

datatype 'a binding = Unbound | Bound 'a

record loop_state =
  features :: "feature list"
  lat :: "real option binding"
  lon :: "real option binding"
  the_world :: world

text \<open>
  The two lists of \<open>place_check_obj["properties"]\<close> that the checks append to, with the
  state of the URL checks.
\<close>

record acc =
  undefined_list :: "string list"
  issues_list :: "string list"
  wld :: world

definition add_undefined :: "string \<Rightarrow> acc \<Rightarrow> acc" where
  "add_undefined k a = a\<lparr>undefined_list := undefined_list a @ [k]\<rparr>"

definition add_issue :: "string \<Rightarrow> acc \<Rightarrow> acc" where
  "add_issue msg a = a\<lparr>issues_list := issues_list a @ [msg]\<rparr>"

definition issue_if :: "bool \<Rightarrow> string \<Rightarrow> acc \<Rightarrow> acc" where
  "issue_if b msg a = (if b then add_issue msg a else a)"

definition undefined_if :: "bool \<Rightarrow> string \<Rightarrow> acc \<Rightarrow> acc" where
  "undefined_if b k a = (if b then add_undefined k a else a)"

text \<open>\<open>if is_url_ok(url)['isOk'] is False: issues.append(msg)\<close>\<close>

definition url_issue :: "env \<Rightarrow> string \<Rightarrow> string \<Rightarrow> acc \<Rightarrow> acc" where
  "url_issue ev url msg a =
     (let (result, w) = is_url_ok ev url (wld a)
      in issue_if (\<not> entry_isOk result) msg (a\<lparr>wld := w\<rparr>))"

subsection \<open>The checks of one element, in the order of \<open>check_data\<close>\<close>

text \<open>
  Lines 125 to 132: only the three known types assign \<open>lat\<close> and \<open>lon\<close>; a way or a
  relation without \<open>center\<close> calls \<open>None.get\<close>.
\<close>

definition assign_coordinates :: "osm_element \<Rightarrow> loop_state \<Rightarrow> error + loop_state" where
  "assign_coordinates e s =
     (if el_type e = ''node'' then
        Inr (s\<lparr>lat := Bound (el_lat e), lon := Bound (el_lon e)\<rparr>)
      else if el_type e = ''way'' \<or> el_type e = ''relation'' then
        (case el_center e of
           None \<Rightarrow> Inl AttributeError
         | Some center_coordinates \<Rightarrow>
             Inr (s\<lparr>lat := Bound (center_lat center_coordinates),
                    lon := Bound (center_lon center_coordinates)\<rparr>))
      else Inr s)"

text \<open>Line 136: \<open>[lon, lat]\<close> reads both locals.\<close>

definition geometry :: "loop_state \<Rightarrow> error + (real option \<times> real option)" where
  "geometry s =
     (case lon s of
        Unbound \<Rightarrow> Inl UnboundLocalError
      | Bound lo \<Rightarrow>
          (case lat s of
             Unbound \<Rightarrow> Inl UnboundLocalError
           | Bound la \<Rightarrow> Inr (lo, la)))"

definition check_name :: "osm_element \<Rightarrow> tags \<Rightarrow> acc \<Rightarrow> string \<times> acc" where
  "check_name e tags a =
     (let (name, a') =
        (if has_key ''name'' tags then (dict_get tags ''name'' [], a)
         else if has_key ''name:en'' tags then (dict_get tags ''name:en'' [], a)
         else if dict_get tags ''amenity'' [] = ''vending_machine'' then (''vending machine'', a)
         else (el_type e @ '' '' @ str_int (el_id e), add_undefined ''name'' a))
      in (replace_quotes name, a'))"

definition check_diet :: "tags \<Rightarrow> acc \<Rightarrow> string option \<times> acc" where
  "check_diet tags a =
     (if has_key ''diet:vegan'' tags then
        (let diet_vegan = dict_get tags ''diet:vegan'' []
         in (Some diet_vegan,
             issue_if (diet_vegan \<noteq> ''only'' \<and> diet_vegan \<noteq> ''yes''
                        \<and> diet_vegan \<noteq> ''limited'' \<and> diet_vegan \<noteq> ''no'')
               ('''diet:vegan' has an unusual value: '' @ diet_vegan) a))
      else (None, add_undefined ''diet:vegan'' a))"

definition check_cuisine :: "tags \<Rightarrow> acc \<Rightarrow> acc" where
  "check_cuisine tags a =
     (if \<not> has_key ''cuisine'' tags \<and> \<not> has_key ''shop'' tags then
        undefined_if (dict_get tags ''amenity'' [] \<noteq> ''cafe''
                       \<and> dict_get tags ''amenity'' [] \<noteq> ''ice_cream''
                       \<and> dict_get tags ''amenity'' [] \<noteq> ''bar'') ''cuisine'' a
      else a)"

definition check_address :: "tags \<Rightarrow> acc \<Rightarrow> acc" where
  "check_address tags a =
     (let a1 = undefined_if (\<not> has_key ''addr:street'' tags) ''addr:street'' a;
          a2 = undefined_if (\<not> has_key ''addr:housenumber'' tags) ''addr:housenumber'' a1;
          a3 = undefined_if (\<not> has_key ''addr:city'' tags \<and> \<not> has_key ''addr:suburb'' tags)
                 ''addr:city/suburb'' a2
      in undefined_if (\<not> has_key ''addr:postcode'' tags) ''addr:postcode'' a3)"

text \<open>
  Lines 192 to 202: the local \<open>website\<close> after the two independent \<open>if\<close>s, each of which
  checks its own tag.
\<close>

definition check_website_uri :: "env \<Rightarrow> tags \<Rightarrow> acc \<Rightarrow> string \<times> acc" where
  "check_website_uri ev tags a =
     (let website = ''undefined'';
          (website, a1) =
            (if has_key ''contact:website'' tags then
               (let website = dict_get tags ''contact:website'' []
                in (website, url_issue ev website '''contact:website' URI invalid'' a))
             else (website, a))
      in if has_key ''website'' tags then
           (let website = dict_get tags ''website'' []
            in (website, url_issue ev website '''website' URI invalid'' a1))
         else (website, a1))"

definition check_website :: "env \<Rightarrow> tags \<Rightarrow> acc \<Rightarrow> acc" where
  "check_website ev tags a =
     (let (website, a2) = check_website_uri ev tags a;
          a3 = issue_if (str_in ''facebook'' website)
                 ('''facebook' URI as website -> change to 'contact:facebook'' @ apos) a2;
          a4 = issue_if (str_in ''instagram'' website)
                 ('''instagram' URI as website -> change to 'contact:instagram'' @ apos) a3
      in issue_if (has_key ''contact:website'' tags \<and> has_key ''website'' tags)
           '''website' and 'contact:website' defined -> remove one'' a4)"

definition check_facebook :: "env \<Rightarrow> tags \<Rightarrow> acc \<Rightarrow> acc" where
  "check_facebook ev tags a =
     (let a1 =
        (if has_key ''contact:facebook'' tags then
           (let contact_facebook = dict_get tags ''contact:facebook'' []
            in if startswith contact_facebook ''http://'' then
                 add_issue ('''contact:facebook' starts with 'http' instead of 'https'' @ apos) a
               else if \<not> startswith contact_facebook ''https://www.facebook.com/'' then
                 add_issue
                   ('''contact:facebook' does not starts with 'https://www.facebook.com/'' @ apos) a
               else url_issue ev contact_facebook '''contact:facebook' URI invalid'' a)
         else a)
      in issue_if (has_key ''facebook'' tags)
           (''old tag: 'facebook' -> change to 'contact:facebook'' @ apos) a1)"

definition check_instagram :: "env \<Rightarrow> tags \<Rightarrow> acc \<Rightarrow> acc" where
  "check_instagram ev tags a =
     (let a1 =
        (if has_key ''contact:instagram'' tags then
           (let contact_instagram = dict_get tags ''contact:instagram'' []
            in if startswith contact_instagram ''http://'' then
                 add_issue ('''contact:instagram' starts with 'http' instead of 'https'' @ apos) a
               else if \<not> startswith contact_instagram ''https://www.instagram.com/'' then
                 add_issue
                   ('''contact:instagram' does not starts with 'https://www.instagram.com/'' @ apos) a
               else url_issue ev contact_instagram '''contact:instagram' URI invalid'' a)
         else a)
      in issue_if (has_key ''instagram'' tags) (''old tag 'instagram'' @ apos) a1)"

text \<open>
  The local \<open>email\<close> is assigned by the same condition that guards its use, so it is
  never read unbound.
\<close>

definition check_email :: "env \<Rightarrow> tags \<Rightarrow> acc \<Rightarrow> acc" where
  "check_email ev tags a =
     (let a1 =
        (if has_key ''contact:email'' tags \<or> has_key ''email'' tags then
           (let email = (if has_key ''contact:email'' tags
                         then dict_get tags ''contact:email'' []
                         else dict_get tags ''email'' [])
            in case validate_email ev email of
                 None \<Rightarrow> a
               | Some e \<Rightarrow> add_issue (''E-Mail is not valid: '' @ e) a)
         else a)
      in issue_if (has_key ''contact:email'' tags \<and> has_key ''email'' tags)
           '''email' and 'contact:email' defined -> remove one'' a1)"

definition check_phone :: "tags \<Rightarrow> acc \<Rightarrow> acc" where
  "check_phone tags a =
     (let a1 = issue_if (has_key ''contact:phone'' tags
                          \<and> \<not> startswith (dict_get tags ''contact:phone'' []) ''+'')
                 ('''contact:phone' has no international format like '+44 20 84527891'' @ apos) a;
          a2 = issue_if (has_key ''phone'' tags \<and> \<not> startswith (dict_get tags ''phone'' []) ''+'')
                 ('''phone' has no international format like '+44 20 84527891'' @ apos) a1
      in issue_if (has_key ''contact:phone'' tags \<and> has_key ''phone'' tags)
           '''phone' and 'contact:phone' defined -> remove one'' a2)"

definition check_opening_hours :: "tags \<Rightarrow> acc \<Rightarrow> acc" where
  "check_opening_hours tags a =
     (let (opening_hours, a1) =
        (if has_key ''opening_hours:covid19'' tags
            \<and> dict_get tags ''opening_hours:covid19'' [] \<noteq> ''same''
            \<and> dict_get tags ''opening_hours:covid19'' [] \<noteq> ''restricted'' then
           (dict_get tags ''opening_hours:covid19'' [], a)
         else if has_key ''opening_hours'' tags then (dict_get tags ''opening_hours'' [], a)
         else (''undefined'', add_undefined ''opening_hours'' a))
      in issue_if (str_in [CHR 0x0A] opening_hours \<or> str_in [CHR 0x0D] opening_hours)
           ''There is a line break in 'opening_hours' -> remove'' a1)"

text \<open>\<open>"".join(tags)\<close> joins the keys.\<close>

definition check_disused :: "tags \<Rightarrow> acc \<Rightarrow> acc" where
  "check_disused tags a =
     issue_if (str_in ''disused'' (concat (map fst tags)))
       (''There is a 'disused' tag: Check whether this tag is correct. ''
        @ ''If so, please remove the diet tags.'') a"

text \<open>Lines 170 to 291, everything under \<open>if tags.get("diet:vegan", "") != "no"\<close>.\<close>

definition deep_checks :: "env \<Rightarrow> tags \<Rightarrow> acc \<Rightarrow> acc" where
  "deep_checks ev tags a =
     check_disused tags
       (check_opening_hours tags
         (check_phone tags
           (check_email ev tags
             (check_instagram ev tags
               (check_facebook ev tags
                 (check_website ev tags
                   (check_address tags
                     (check_cuisine tags a))))))))"

text \<open>
  Lines 294 to 300: the count is taken of both lists, then an empty list is deleted.
\<close>

definition drop_empty :: "string list \<Rightarrow> string list option" where
  "drop_empty xs = (if length xs = 0 then None else Some xs)"

definition finish :: "osm_element \<Rightarrow> string \<Rightarrow> string option
    \<Rightarrow> real option \<times> real option \<Rightarrow> acc \<Rightarrow> feature" where
  "finish e name diet_vegan crd a =
     \<lparr>prop_id = el_id e, prop_type = el_type e, prop_name = name,
      prop_diet_vegan = diet_vegan,
      prop_undefined = drop_empty (undefined_list a),
      prop_issues = drop_empty (issues_list a),
      prop_issue_number = length (issues_list a) + length (undefined_list a),
      coordinates = crd\<rparr>"

text \<open>
  Lines 138 to 304 for one element, given its geometry: the properties are filled in,
  and the feature is appended only under the \<open>if\<close> of line 169, where the \<open>append\<close> of
  line 304 stands. \<open>None\<close> is an iteration that appends nothing.
\<close>

definition check_place :: "env \<Rightarrow> osm_element \<Rightarrow> real option \<times> real option \<Rightarrow> world
    \<Rightarrow> (feature \<times> world) option" where
  "check_place ev e crd w =
     (let tags = tags_of e;
          a0 = \<lparr>undefined_list = [], issues_list = [], wld = w\<rparr>;
          (name, a1) = check_name e tags a0;
          (diet_vegan, a2) = check_diet tags a1
      in if dict_get tags ''diet:vegan'' [] \<noteq> ''no'' then
           (let a = deep_checks ev tags a2
            in Some (finish e name diet_vegan crd a, wld a))
         else None)"

text \<open>One iteration of the loop of \<open>check_data\<close>.\<close>

definition check_element :: "env \<Rightarrow> osm_element \<Rightarrow> loop_state \<Rightarrow> error + loop_state" where
  "check_element ev e s0 =
     (case assign_coordinates e s0 of
        Inl err \<Rightarrow> Inl err
      | Inr s \<Rightarrow>
          (case geometry s of
             Inl err \<Rightarrow> Inl err
           | Inr crd \<Rightarrow>
               (case check_place ev e crd (the_world s) of
                  None \<Rightarrow> Inr s
                | Some (place_check_obj, w) \<Rightarrow>
                    Inr (s\<lparr>features := features s @ [place_check_obj], the_world := w\<rparr>))))"

fun check_loop :: "env \<Rightarrow> osm_element list \<Rightarrow> loop_state \<Rightarrow> error + loop_state" where
  "check_loop ev [] s = Inr s"
| "check_loop ev (osm_element # rest) s =
     (case check_element ev osm_element s of
        Inl err \<Rightarrow> Inl err
      | Inr s' \<Rightarrow> check_loop ev rest s')"

definition check_data :: "env \<Rightarrow> overpass_data \<Rightarrow> world \<Rightarrow> error + check_result \<times> world" where
  "check_data ev data w =
     (case check_loop ev (elements data)
             \<lparr>features = [], lat = Unbound, lon = Unbound, the_world = w\<rparr> of
        Inl err \<Rightarrow> Inl err
      | Inr s \<Rightarrow> Inr (\<lparr>timestamp = TIMESTAMP ev, result_features = features s\<rparr>, the_world s))"

subsection \<open>The run\<close>

text \<open>
  Lines 318 to 326: the loop over the keys of the loaded URL data. \<open>today\<close> is parsed
  anew for each key.
\<close>

fun prune :: "env \<Rightarrow> string list \<Rightarrow> url_dict \<Rightarrow> error + url_dict" where
  "prune ev [] ud = Inr ud"
| "prune ev (element # rest) ud =
     (case strptime ev (DATE ev) of
        None \<Rightarrow> Inl ValueError
      | Some today \<Rightarrow>
          (case map_of ud element of
             None \<Rightarrow> Inl KeyError
           | Some entry \<Rightarrow>
               (case strptime ev (entry_date entry) of
                  None \<Rightarrow> Inl ValueError
                | Some url_data_date \<Rightarrow>
                    (let delta_days = today - url_data_date
                     in if delta_days > 28 then prune ev rest (dict_del element ud)
                        else prune ev rest ud))))"

text \<open>
  What a run leaves behind: the check result file (not written when the Overpass file
  holds \<open>null\<close>), the rewritten URL data file and the requests it made.
\<close>

record run_output =
  check_result_file :: "check_result option"
  url_data_file :: url_dict
  requests_made :: "string list"

definition main :: "env \<Rightarrow> url_dict \<Rightarrow> overpass_data option \<Rightarrow> error + run_output" where
  "main ev url_file osm_data =
     (case prune ev (map fst url_file) url_file of
        Inl err \<Rightarrow> Inl err
      | Inr pruned \<Rightarrow>
          (case osm_data of
             None \<Rightarrow>
               Inr \<lparr>check_result_file = None, url_data_file = pruned, requests_made = []\<rparr>
           | Some data \<Rightarrow>
               (case check_data ev data \<lparr>url_data = pruned, net_log = []\<rparr> of
                  Inl err \<Rightarrow> Inl err
                | Inr (check_result, w) \<Rightarrow>
                    Inr \<lparr>check_result_file = Some check_result,
                         url_data_file = url_data w, requests_made = net_log w\<rparr>)))"

text \<open>The types that lines 125 and 128 test for.\<close>

definition known_type :: "string \<Rightarrow> bool" where
  "known_type t = (t = ''node'' \<or> t = ''way'' \<or> t = ''relation'')"

text \<open>
  The length of \<open>issues\<close> or \<open>undefined\<close> as the report holds it: a key that was
  deleted contributes nothing.
\<close>

definition serialized_length :: "string list option \<Rightarrow> nat" where
  "serialized_length l = (case l of None \<Rightarrow> 0 | Some xs \<Rightarrow> length xs)"

subsection \<open>Concrete inputs\<close>

text \<open>
  A network in which \<open>https://gone.example\<close> answers 404 and every other host 200, on
  the first of March 2024. \<open>urlparse\<close> is tabulated for the URLs used below, with the
  results the library gives for them, and \<open>strptime\<close> for three dates, with their
  proleptic Gregorian ordinals.
\<close>

definition example_env :: env where
  "example_env =
     \<lparr>TIMESTAMP = ''2024-03-01 12:00:00.000000'',
      DATE = ''2024-03-01'',
      urlparse = (\<lambda>url.
        if url = ''https://a.example'' then
          Some \<lparr>scheme = ''https'', netloc = ''a.example''\<rparr>
        else if url = ''https://gone.example'' then
          Some \<lparr>scheme = ''https'', netloc = ''gone.example''\<rparr>
        else if url = ''https://www.facebook.com/x'' then
          Some \<lparr>scheme = ''https'', netloc = ''www.facebook.com''\<rparr>
        else Some \<lparr>scheme = [], netloc = []\<rparr>),
      requests_get = (\<lambda>log url.
        if url = ''https://gone.example'' then Status 404 else Status 200),
      validate_email = (\<lambda>email. None),
      strptime = (\<lambda>d.
        if d = ''2024-03-01'' then Some 738946
        else if d = ''2024-02-02'' then Some 738918
        else if d = ''2024-02-01'' then Some 738917
        else None)\<rparr>"

definition empty_world :: world where
  "empty_world = \<lparr>url_data = [], net_log = []\<rparr>"

text \<open>A place with a name and a diet tag and nothing else, and its report.\<close>

definition green_bowl :: osm_element where
  "green_bowl =
     \<lparr>el_id = 42, el_type = ''node'', el_lat = Some 1, el_lon = Some 2, el_center = None,
      el_tags = Some [(''diet:vegan'', ''only''), (''name'', ''Green Bowl'')]\<rparr>"

definition green_bowl_report :: feature where
  "green_bowl_report =
     \<lparr>prop_id = 42, prop_type = ''node'', prop_name = ''Green Bowl'',
      prop_diet_vegan = Some ''only'',
      prop_undefined = Some [''cuisine'', ''addr:street'', ''addr:housenumber'',
        ''addr:city/suburb'', ''addr:postcode'', ''opening_hours''],
      prop_issues = None, prop_issue_number = 6, coordinates = (Some 2, Some 1)\<rparr>"

text \<open>
  The same place tagged \<open>diet:vegan=no\<close>; a node without \<open>lat\<close> and \<open>lon\<close> and its
  report; a way without \<open>center\<close>; an element of a type the loop does not know.
\<close>

definition diet_no_place :: osm_element where
  "diet_no_place =
     \<lparr>el_id = 43, el_type = ''node'', el_lat = Some 1, el_lon = Some 2, el_center = None,
      el_tags = Some [(''diet:vegan'', ''no''), (''name'', ''Steak House'')]\<rparr>"

definition node_without_coordinates :: osm_element where
  "node_without_coordinates =
     \<lparr>el_id = 44, el_type = ''node'', el_lat = None, el_lon = None, el_center = None,
      el_tags = Some [(''diet:vegan'', ''only''), (''name'', ''Green Bowl'')]\<rparr>"

definition node_without_coordinates_report :: feature where
  "node_without_coordinates_report =
     \<lparr>prop_id = 44, prop_type = ''node'', prop_name = ''Green Bowl'',
      prop_diet_vegan = Some ''only'',
      prop_undefined = Some [''cuisine'', ''addr:street'', ''addr:housenumber'',
        ''addr:city/suburb'', ''addr:postcode'', ''opening_hours''],
      prop_issues = None, prop_issue_number = 6, coordinates = (None, None)\<rparr>"

definition way_without_center :: osm_element where
  "way_without_center =
     \<lparr>el_id = 45, el_type = ''way'', el_lat = None, el_lon = None, el_center = None,
      el_tags = Some [(''diet:vegan'', ''only''), (''name'', ''Green Bowl'')]\<rparr>"

definition area_place :: osm_element where
  "area_place =
     \<lparr>el_id = 46, el_type = ''area'', el_lat = Some 7, el_lon = Some 8, el_center = None,
      el_tags = Some [(''diet:vegan'', ''only''), (''name'', ''Green Bowl'')]\<rparr>"

definition area_place_report :: feature where
  "area_place_report =
     \<lparr>prop_id = 46, prop_type = ''area'', prop_name = ''Green Bowl'',
      prop_diet_vegan = Some ''only'',
      prop_undefined = Some [''cuisine'', ''addr:street'', ''addr:housenumber'',
        ''addr:city/suburb'', ''addr:postcode'', ''opening_hours''],
      prop_issues = None, prop_issue_number = 6, coordinates = (Some 2, Some 1)\<rparr>"

text \<open>
  A URL data file with an entry of 29 days ago, one of 28 days ago and one of today,
  and what is left of it after pruning.
\<close>

definition example_url_file :: url_dict where
  "example_url_file =
     [(''https://old.example'',
       \<lparr>entry_date = ''2024-02-01'', entry_isOk = False, entry_text = ''HTTP response code 500''\<rparr>),
      (''https://edge.example'',
       \<lparr>entry_date = ''2024-02-02'', entry_isOk = True, entry_text = ''OK''\<rparr>),
      (''https://a.example'',
       \<lparr>entry_date = ''2024-03-01'', entry_isOk = True, entry_text = ''OK''\<rparr>)]"

definition example_url_file_pruned :: url_dict where
  "example_url_file_pruned =
     [(''https://edge.example'',
       \<lparr>entry_date = ''2024-02-02'', entry_isOk = True, entry_text = ''OK''\<rparr>),
      (''https://a.example'',
       \<lparr>entry_date = ''2024-03-01'', entry_isOk = True, entry_text = ''OK''\<rparr>)]"

text \<open>
  Tags with both website keys, the Facebook page under \<open>contact:website\<close>; and a
  place that has a website, with what a run over it alone leaves behind.
\<close>

definition both_websites :: tags where
  "both_websites =
     [(''contact:website'', ''https://www.facebook.com/x''), (''website'', ''https://a.example'')]"

definition website_place :: osm_element where
  "website_place =
     \<lparr>el_id = 47, el_type = ''node'', el_lat = Some 1, el_lon = Some 2, el_center = None,
      el_tags = Some [(''diet:vegan'', ''only''), (''name'', ''Green Bowl''),
        (''website'', ''https://a.example'')]\<rparr>"

definition website_place_run :: run_output where
  "website_place_run =
     \<lparr>check_result_file = Some
        \<lparr>timestamp = ''2024-03-01 12:00:00.000000'',
         result_features =
           [\<lparr>prop_id = 47, prop_type = ''node'', prop_name = ''Green Bowl'',
             prop_diet_vegan = Some ''only'',
             prop_undefined = Some [''cuisine'', ''addr:street'', ''addr:housenumber'',
               ''addr:city/suburb'', ''addr:postcode'', ''opening_hours''],
             prop_issues = None, prop_issue_number = 6, coordinates = (Some 2, Some 1)\<rparr>]\<rparr>,
      url_data_file = [],
      requests_made = [''https://a.example'']\<rparr>"

section \<open>Properties\<close>

subsection \<open>Checking a URL\<close>

lemma str_int_404: "str_int 404 = ''404''"
  by (simp add: str_int_def str_nat.simps digit_char_def)

lemma is_url_format_valid_iff:
  "is_url_format_valid ev url \<longleftrightarrow>
     (\<exists>r. urlparse ev url = Some r \<and> scheme r \<noteq> [] \<and> netloc r \<noteq> [])"
  by (simp add: is_url_format_valid_def split: option.split)

lemma is_url_ok_url_data: "url_data (snd (is_url_ok ev url w)) = url_data w"
  by (simp add: is_url_ok_def split: option.split response.split)

text \<open>
  C5. A well-formed URL that is not in the URL data is requested. When the request
  returns a response with status code \<open>c\<close>: below 400 the result is ok with text
  \<open>OK\<close>; 403 and 429 are ok with their "Can't do full check" texts; every other code
  from 400 on is not ok with the text \<open>HTTP response code c\<close>, so 404 gives
  \<open>HTTP response code 404\<close>.
\<close>

theorem is_url_ok_status:
  assumes "is_url_format_valid ev url"
    and "map_of (url_data w) url = None"
    and "requests_get ev (net_log w) url = Status c"
  shows "(c < 400 \<longrightarrow> fst (is_url_ok ev url w) =
            \<lparr>entry_date = DATE ev, entry_isOk = True, entry_text = ''OK''\<rparr>)
       \<and> (c = 403 \<longrightarrow> fst (is_url_ok ev url w) =
            \<lparr>entry_date = DATE ev, entry_isOk = True,
             entry_text = ''Can't do full check: HTTP response: Forbidden''\<rparr>)
       \<and> (c = 429 \<longrightarrow> fst (is_url_ok ev url w) =
            \<lparr>entry_date = DATE ev, entry_isOk = True,
             entry_text = ''Can't do full check: HTTP response: Too Many Requests''\<rparr>)
       \<and> (400 \<le> c \<and> c \<noteq> 403 \<and> c \<noteq> 429 \<longrightarrow> fst (is_url_ok ev url w) =
            \<lparr>entry_date = DATE ev, entry_isOk = False,
             entry_text = ''HTTP response code '' @ str_int c\<rparr>)
       \<and> (c = 404 \<longrightarrow> fst (is_url_ok ev url w) =
            \<lparr>entry_date = DATE ev, entry_isOk = False,
             entry_text = ''HTTP response code 404''\<rparr>)"
  using assms by (simp add: is_url_ok_def str_int_404)

theorem is_url_ok_status_witness:
  "is_url_format_valid example_env ''https://gone.example''
   \<and> map_of (url_data empty_world) ''https://gone.example'' = None
   \<and> requests_get example_env (net_log empty_world) ''https://gone.example'' = Status 404
   \<and> fst (is_url_ok example_env ''https://gone.example'' empty_world) =
        \<lparr>entry_date = ''2024-03-01'', entry_isOk = False,
         entry_text = ''HTTP response code 404''\<rparr>"
proof -
  have valid: "is_url_format_valid example_env ''https://gone.example''"
    by (simp add: is_url_format_valid_def example_env_def)
  have miss: "map_of (url_data empty_world) ''https://gone.example'' = None"
    by (simp add: empty_world_def)
  have probe: "requests_get example_env (net_log empty_world) ''https://gone.example'' = Status 404"
    by (simp add: example_env_def)
  have "DATE example_env = ''2024-03-01''"
    by (simp add: example_env_def)
  with is_url_ok_status [OF valid miss probe] valid miss probe show ?thesis
    by (simp add: str_int_404)
qed

text \<open>
  C6. A URL that is not in the URL data and does not parse with both a scheme and a
  network location is answered with \<open>No valid URL format\<close>, not ok, and the state is
  returned as it was: nothing is requested.
\<close>

theorem is_url_ok_malformed:
  assumes "\<not> is_url_format_valid ev url"
    and "map_of (url_data w) url = None"
  shows "is_url_ok ev url w =
           (\<lparr>entry_date = DATE ev, entry_isOk = False, entry_text = ''No valid URL format''\<rparr>, w)
         \<and> net_log (snd (is_url_ok ev url w)) = net_log w"
  using assms by (simp add: is_url_ok_def)

theorem is_url_ok_malformed_witness:
  "\<not> is_url_format_valid example_env ''not a url''
   \<and> map_of (url_data empty_world) ''not a url'' = None
   \<and> is_url_ok example_env ''not a url'' empty_world =
        (\<lparr>entry_date = ''2024-03-01'', entry_isOk = False, entry_text = ''No valid URL format''\<rparr>,
         empty_world)
   \<and> net_log (snd (is_url_ok example_env ''not a url'' empty_world)) = []"
proof -
  have bad: "\<not> is_url_format_valid example_env ''not a url''"
    by (simp add: is_url_format_valid_def example_env_def)
  have miss: "map_of (url_data empty_world) ''not a url'' = None"
    by (simp add: empty_world_def)
  have "DATE example_env = ''2024-03-01''"
    by (simp add: example_env_def)
  moreover have "net_log empty_world = []"
    by (simp add: empty_world_def)
  ultimately show ?thesis
    using is_url_ok_malformed [OF bad miss] bad miss by simp
qed

text \<open>
  C2. The claim asks that a URL missing from the URL data is stored there once checked.
  \<open>is_url_ok\<close> builds the entry, date included, and returns it, but never assigns it to
  \<open>url_data\<close>: after the check of \<open>https://a.example\<close> against empty URL data, which
  requests the URL and finds it ok, the URL data still has no entry for it.
\<close>

theorem is_url_ok_never_stores:
  "map_of (url_data empty_world) ''https://a.example'' = None
   \<and> is_url_ok example_env ''https://a.example'' empty_world =
        (\<lparr>entry_date = ''2024-03-01'', entry_isOk = True, entry_text = ''OK''\<rparr>,
         \<lparr>url_data = [], net_log = [''https://a.example'']\<rparr>)
   \<and> map_of (url_data (snd (is_url_ok example_env ''https://a.example'' empty_world)))
        ''https://a.example'' = None"
  by (simp add: is_url_ok_def is_url_format_valid_def example_env_def empty_world_def)

subsection \<open>The loop over the elements\<close>

lemma assign_coordinates_keeps:
  "assign_coordinates e s = Inr s1 \<Longrightarrow> features s1 = features s \<and> the_world s1 = the_world s"
  by (auto simp: assign_coordinates_def split: if_splits option.splits)

lemma check_place_None:
  "check_place ev e crd w = None \<longleftrightarrow> dict_get (tags_of e) ''diet:vegan'' [] = ''no''"
  by (simp add: check_place_def Let_def split: prod.split)

lemma check_place_Some:
  assumes "check_place ev e crd w = Some (f, w')"
  shows "prop_id f = el_id e" and "prop_type f = el_type e" and "coordinates f = crd"
    and "prop_issue_number f = serialized_length (prop_issues f) + serialized_length (prop_undefined f)"
    and "prop_issues f \<noteq> Some []" and "prop_undefined f \<noteq> Some []"
  using assms
  by (auto simp: check_place_def Let_def finish_def drop_empty_def serialized_length_def
      split: prod.splits if_splits)

lemma check_element_Inr:
  assumes "check_element ev e s = Inr s'"
  shows "\<exists>s1 crd. assign_coordinates e s = Inr s1 \<and> geometry s1 = Inr crd
           \<and> lat s' = lat s1 \<and> lon s' = lon s1
           \<and> (case check_place ev e crd (the_world s) of
                 None \<Rightarrow> features s' = features s \<and> the_world s' = the_world s
               | Some (f, w) \<Rightarrow> features s' = features s @ [f] \<and> the_world s' = w)"
proof -
  from assms obtain s1 where s1: "assign_coordinates e s = Inr s1"
    by (cases "assign_coordinates e s") (simp_all add: check_element_def)
  from assms s1 obtain crd where crd: "geometry s1 = Inr crd"
    by (cases "geometry s1") (simp_all add: check_element_def)
  have keep: "features s1 = features s" "the_world s1 = the_world s"
    using assign_coordinates_keeps [OF s1] by simp_all
  from assms s1 crd keep
  have "lat s' = lat s1 \<and> lon s' = lon s1
        \<and> (case check_place ev e crd (the_world s) of
              None \<Rightarrow> features s' = features s \<and> the_world s' = the_world s
            | Some (f, w) \<Rightarrow> features s' = features s @ [f] \<and> the_world s' = w)"
    by (auto simp: check_element_def split: option.splits)
  with s1 crd show ?thesis by blast
qed

lemma check_element_counts:
  assumes "check_element ev e s = Inr s'"
    and "\<forall>f \<in> set (features s). prop_issue_number f =
           serialized_length (prop_issues f) + serialized_length (prop_undefined f)
           \<and> prop_issues f \<noteq> Some [] \<and> prop_undefined f \<noteq> Some []"
  shows "\<forall>f \<in> set (features s'). prop_issue_number f =
           serialized_length (prop_issues f) + serialized_length (prop_undefined f)
           \<and> prop_issues f \<noteq> Some [] \<and> prop_undefined f \<noteq> Some []"
proof -
  from check_element_Inr [OF assms(1)] obtain crd where
    step: "case check_place ev e crd (the_world s) of
             None \<Rightarrow> features s' = features s \<and> the_world s' = the_world s
           | Some (f, w) \<Rightarrow> features s' = features s @ [f] \<and> the_world s' = w"
    by blast
  show ?thesis
  proof (cases "check_place ev e crd (the_world s)")
    case None
    with step assms(2) show ?thesis by simp
  next
    case (Some fw)
    obtain f w where fw: "fw = (f, w)" by (cases fw)
    from step Some fw have "features s' = features s @ [f]" by simp
    with assms(2) check_place_Some(4-6) [OF Some [unfolded fw]] show ?thesis by auto
  qed
qed

lemma check_loop_counts:
  assumes "check_loop ev es s = Inr s'"
    and "\<forall>f \<in> set (features s). prop_issue_number f =
           serialized_length (prop_issues f) + serialized_length (prop_undefined f)
           \<and> prop_issues f \<noteq> Some [] \<and> prop_undefined f \<noteq> Some []"
  shows "\<forall>f \<in> set (features s'). prop_issue_number f =
           serialized_length (prop_issues f) + serialized_length (prop_undefined f)
           \<and> prop_issues f \<noteq> Some [] \<and> prop_undefined f \<noteq> Some []"
  using assms
proof (induction es arbitrary: s)
  case Nil
  then show ?case by simp
next
  case (Cons e es)
  from Cons.prems(1) obtain s1 where s1: "check_element ev e s = Inr s1"
    and rest: "check_loop ev es s1 = Inr s'"
    by (cases "check_element ev e s") simp_all
  from Cons.IH [OF rest check_element_counts [OF s1 Cons.prems(2)]] show ?case .
qed

text \<open>
  C9. In every report of a run, \<open>issue_number\<close> is the length of \<open>issues\<close> plus the
  length of \<open>undefined\<close> as the report holds them, neither list is held empty, and so
  \<open>issue_number\<close> is 0 exactly when both keys are absent.
\<close>

theorem issue_number_counts_serialized:
  assumes "check_data ev data w = Inr (result, w')"
    and "f \<in> set (result_features result)"
  shows "prop_issue_number f =
           serialized_length (prop_issues f) + serialized_length (prop_undefined f)
         \<and> prop_issues f \<noteq> Some [] \<and> prop_undefined f \<noteq> Some []
         \<and> (prop_issue_number f = 0 \<longleftrightarrow> prop_issues f = None \<and> prop_undefined f = None)"
proof -
  from assms(1) obtain s where
    loop: "check_loop ev (elements data)
             \<lparr>features = [], lat = Unbound, lon = Unbound, the_world = w\<rparr> = Inr s"
    and res: "result = \<lparr>timestamp = TIMESTAMP ev, result_features = features s\<rparr>"
    by (auto simp: check_data_def split: sum.splits)
  from check_loop_counts [OF loop] assms(2) res
  have cnt: "prop_issue_number f =
           serialized_length (prop_issues f) + serialized_length (prop_undefined f)"
    and ne: "prop_issues f \<noteq> Some []" "prop_undefined f \<noteq> Some []"
    by simp_all
  from cnt ne have "prop_issue_number f = 0 \<longleftrightarrow> prop_issues f = None \<and> prop_undefined f = None"
    by (cases "prop_issues f"; cases "prop_undefined f") (simp_all add: serialized_length_def)
  with cnt ne show ?thesis by simp
qed


theorem issue_number_counts_serialized_witness:
  "check_data example_env \<lparr>elements = [green_bowl]\<rparr> empty_world =
     Inr (\<lparr>timestamp = ''2024-03-01 12:00:00.000000'', result_features = [green_bowl_report]\<rparr>,
          empty_world)
   \<and> green_bowl_report \<in> set [green_bowl_report]
   \<and> prop_issue_number green_bowl_report = 6
   \<and> serialized_length (prop_issues green_bowl_report) = 0
   \<and> serialized_length (prop_undefined green_bowl_report) = 6"
proof -
  have run: "check_data example_env \<lparr>elements = [green_bowl]\<rparr> empty_world =
     Inr (\<lparr>timestamp = ''2024-03-01 12:00:00.000000'', result_features = [green_bowl_report]\<rparr>,
          empty_world)"
    by code_simp
  have mem: "green_bowl_report
      \<in> set (result_features
          \<lparr>timestamp = ''2024-03-01 12:00:00.000000'', result_features = [green_bowl_report]\<rparr>)"
    by simp
  have vals: "prop_issue_number green_bowl_report = 6"
    "serialized_length (prop_issues green_bowl_report) = 0"
    by (simp_all add: green_bowl_report_def serialized_length_def)
  from issue_number_counts_serialized [OF run mem] run vals show ?thesis
    by simp
qed

lemma check_element_bound:
  assumes "assign_coordinates e s = Inr s1" and "lat s1 = Bound la" and "lon s1 = Bound lo"
  shows "check_element ev e s =
           Inr (case check_place ev e (lo, la) (the_world s1) of
                  None \<Rightarrow> s1
                | Some (f, w) \<Rightarrow> s1\<lparr>features := features s1 @ [f], the_world := w\<rparr>)"
  using assms by (simp add: check_element_def geometry_def split: option.split)

lemma check_element_unbound:
  assumes "assign_coordinates e s = Inr s1" and "lat s1 = Unbound \<or> lon s1 = Unbound"
  shows "check_element ev e s = Inl UnboundLocalError"
  using assms by (auto simp: check_element_def geometry_def split: binding.split)

lemma check_loop_error:
  assumes "e \<in> set es" and "\<And>s. check_element ev e s = Inl AttributeError"
  shows "\<exists>err. check_loop ev es s = Inl err"
  using assms(1)
proof (induction es arbitrary: s)
  case Nil
  then show ?case by simp
next
  case (Cons x xs)
  show ?case
  proof (cases "check_element ev x s")
    case (Inl err)
    then show ?thesis by simp
  next
    case (Inr s1)
    with assms(2) have "x \<noteq> e" by auto
    with Cons.prems have "e \<in> set xs" by simp
    from Cons.IH [OF this, of s1] Inr show ?thesis by simp
  qed
qed

text \<open>
  The reports of a run are those of the elements whose \<open>diet:vegan\<close> is not \<open>no\<close>, in
  the order of the input.
\<close>

lemma check_loop_reports:
  assumes "check_loop ev es s = Inr s'"
  shows "map (\<lambda>f. (prop_type f, prop_id f)) (features s') =
           map (\<lambda>f. (prop_type f, prop_id f)) (features s)
           @ map (\<lambda>e. (el_type e, el_id e))
               (filter (\<lambda>e. dict_get (tags_of e) ''diet:vegan'' [] \<noteq> ''no'') es)"
  using assms
proof (induction es arbitrary: s)
  case Nil
  then show ?case by simp
next
  case (Cons e es)
  from Cons.prems obtain s1 where s1: "check_element ev e s = Inr s1"
    and rest: "check_loop ev es s1 = Inr s'"
    by (cases "check_element ev e s") simp_all
  from check_element_Inr [OF s1] obtain crd where
    step: "case check_place ev e crd (the_world s) of
             None \<Rightarrow> features s1 = features s \<and> the_world s1 = the_world s
           | Some (f, w) \<Rightarrow> features s1 = features s @ [f] \<and> the_world s1 = w"
    by blast
  have "map (\<lambda>f. (prop_type f, prop_id f)) (features s1) =
          map (\<lambda>f. (prop_type f, prop_id f)) (features s)
          @ map (\<lambda>e. (el_type e, el_id e))
              (filter (\<lambda>e. dict_get (tags_of e) ''diet:vegan'' [] \<noteq> ''no'') [e])"
  proof (cases "check_place ev e crd (the_world s)")
    case None
    with step check_place_None [of ev e crd "the_world s"] show ?thesis by simp
  next
    case (Some fw)
    obtain f w where fw: "fw = (f, w)" by (cases fw)
    from Some have "dict_get (tags_of e) ''diet:vegan'' [] \<noteq> ''no''"
      using check_place_None [of ev e crd "the_world s"] by simp
    with step Some fw check_place_Some(1,2) [OF Some [unfolded fw]] show ?thesis by simp
  qed
  with Cons.IH [OF rest] show ?case by simp
qed

text \<open>
  C1, as the code has it. An element whose \<open>diet:vegan\<close> is exactly \<open>no\<close> skips every
  remaining check, and no report is appended for it: the iteration leaves the features
  and the state of the URL checks as they were.
\<close>

theorem diet_no_appends_no_report:
  assumes "dict_get (tags_of e) ''diet:vegan'' [] = ''no''"
    and "check_element ev e s = Inr s'"
  shows "features s' = features s \<and> the_world s' = the_world s"
proof -
  from check_element_Inr [OF assms(2)] obtain crd where
    step: "case check_place ev e crd (the_world s) of
             None \<Rightarrow> features s' = features s \<and> the_world s' = the_world s
           | Some (f, w) \<Rightarrow> features s' = features s @ [f] \<and> the_world s' = w"
    by blast
  from assms(1) have "check_place ev e crd (the_world s) = None"
    by (simp add: check_place_None)
  with step show ?thesis by simp
qed

theorem diet_no_appends_no_report_witness:
  "dict_get (tags_of diet_no_place) ''diet:vegan'' [] = ''no''
   \<and> check_element example_env diet_no_place
        \<lparr>features = [green_bowl_report], lat = Unbound, lon = Unbound, the_world = empty_world\<rparr> =
      Inr \<lparr>features = [green_bowl_report], lat = Bound (Some 1), lon = Bound (Some 2),
           the_world = empty_world\<rparr>
   \<and> features \<lparr>features = [green_bowl_report], lat = Bound (Some 1), lon = Bound (Some 2),
         the_world = empty_world\<rparr> = [green_bowl_report]"
proof -
  have diet: "dict_get (tags_of diet_no_place) ''diet:vegan'' [] = ''no''"
    by code_simp
  have step: "check_element example_env diet_no_place
        \<lparr>features = [green_bowl_report], lat = Unbound, lon = Unbound, the_world = empty_world\<rparr> =
      Inr \<lparr>features = [green_bowl_report], lat = Bound (Some 1), lon = Bound (Some 2),
           the_world = empty_world\<rparr>"
    by code_simp
  from diet_no_appends_no_report [OF diet step] diet step show ?thesis
    by simp
qed

text \<open>
  A run over the one place tagged \<open>diet:vegan=no\<close> ends without an error and with no
  feature at all: no report is made for the place.
\<close>

theorem diet_no_report_counterexample:
  "dict_get (tags_of diet_no_place) ''diet:vegan'' [] = ''no''
   \<and> check_data example_env \<lparr>elements = [diet_no_place]\<rparr> empty_world =
       Inr (\<lparr>timestamp = ''2024-03-01 12:00:00.000000'', result_features = []\<rparr>, empty_world)"
  by code_simp

subsection \<open>The coordinates of an element\<close>

lemma assign_coordinates_node:
  "el_type e = ''node'' \<Longrightarrow>
     assign_coordinates e s = Inr (s\<lparr>lat := Bound (el_lat e), lon := Bound (el_lon e)\<rparr>)"
  by (simp add: assign_coordinates_def)

lemma assign_coordinates_no_center:
  "el_type e = ''way'' \<or> el_type e = ''relation'' \<Longrightarrow> el_center e = None \<Longrightarrow>
     assign_coordinates e s = Inl AttributeError"
  by (auto simp: assign_coordinates_def)

lemma assign_coordinates_unknown:
  "el_type e \<noteq> ''node'' \<Longrightarrow> el_type e \<noteq> ''way'' \<Longrightarrow> el_type e \<noteq> ''relation'' \<Longrightarrow>
     assign_coordinates e s = Inr s"
  by (simp add: assign_coordinates_def)

lemma check_element_assigns:
  assumes "check_element ev p s0 = Inr s1"
    and "el_type p = ''node'' \<or> el_type p = ''way'' \<or> el_type p = ''relation''"
  shows "\<exists>la lo. lat s1 = Bound la \<and> lon s1 = Bound lo
           \<and> (el_type p = ''node'' \<longrightarrow> la = el_lat p \<and> lo = el_lon p)
           \<and> (el_type p \<noteq> ''node'' \<longrightarrow>
                (\<exists>c. el_center p = Some c \<and> la = center_lat c \<and> lo = center_lon c))"
proof -
  from check_element_Inr [OF assms(1)] obtain sa where
    sa: "assign_coordinates p s0 = Inr sa" and same: "lat s1 = lat sa" "lon s1 = lon sa"
    by blast
  from sa assms(2) same show ?thesis
    by (auto simp: assign_coordinates_def split: if_splits option.splits)
qed

lemma check_element_reuses:
  assumes "assign_coordinates e s = Inr s" and "lat s = Bound la" and "lon s = Bound lo"
  shows "\<exists>s'. check_element ev e s = Inr s' \<and> lat s' = Bound la \<and> lon s' = Bound lo
           \<and> (if dict_get (tags_of e) ''diet:vegan'' [] = ''no''
               then features s' = features s
               else \<exists>f. features s' = features s @ [f] \<and> coordinates f = (lo, la))"
proof (cases "check_place ev e (lo, la) (the_world s)")
  case None
  with check_element_bound [OF assms, of ev] assms(2,3) check_place_None [of ev e "(lo, la)" "the_world s"]
  show ?thesis by simp
next
  case (Some fw)
  obtain f w where fw: "fw = (f, w)" by (cases fw)
  from Some have "dict_get (tags_of e) ''diet:vegan'' [] \<noteq> ''no''"
    using check_place_None [of ev e "(lo, la)" "the_world s"] by simp
  with check_element_bound [OF assms, of ev] assms(2,3) Some fw
    check_place_Some(3) [OF Some [unfolded fw]]
  show ?thesis by simp
qed

text \<open>
  C4, as the code has it. A way or a relation without \<open>center\<close> raises AttributeError,
  and a run whose input holds such an element ends in an error, with no output. A node
  is read with \<open>.get\<close>: without \<open>lat\<close> or \<open>lon\<close> nothing is raised, the missing
  coordinate is \<open>None\<close>, and the report (appended unless \<open>diet:vegan\<close> is \<open>no\<close>)
  carries it.
\<close>

theorem missing_center_raises_missing_lat_lon_does_not:
  "((el_type e = ''way'' \<or> el_type e = ''relation'') \<and> el_center e = None \<longrightarrow>
      check_element ev e s = Inl AttributeError
      \<and> (e \<in> set (elements data) \<longrightarrow> (\<exists>err. check_data ev data w = Inl err)))
   \<and> (el_type e = ''node'' \<longrightarrow>
      (\<exists>s'. check_element ev e s = Inr s'
         \<and> lat s' = Bound (el_lat e) \<and> lon s' = Bound (el_lon e)
         \<and> (if dict_get (tags_of e) ''diet:vegan'' [] = ''no''
             then features s' = features s
             else \<exists>f. features s' = features s @ [f] \<and> coordinates f = (el_lon e, el_lat e))))"
proof (intro conjI impI)
  assume h: "(el_type e = ''way'' \<or> el_type e = ''relation'') \<and> el_center e = None"
  then have raise: "check_element ev e s0 = Inl AttributeError" for s0
    by (simp add: check_element_def assign_coordinates_no_center)
  then show "check_element ev e s = Inl AttributeError" .
  assume "e \<in> set (elements data)"
  from check_loop_error [OF this raise]
  obtain err where "check_loop ev (elements data)
      \<lparr>features = [], lat = Unbound, lon = Unbound, the_world = w\<rparr> = Inl err"
    by blast
  then show "\<exists>err. check_data ev data w = Inl err"
    by (simp add: check_data_def)
next
  assume node: "el_type e = ''node''"
  let ?s1 = "s\<lparr>lat := Bound (el_lat e), lon := Bound (el_lon e)\<rparr>"
  have a: "assign_coordinates e s = Inr ?s1"
    by (rule assign_coordinates_node [OF node])
  have a': "assign_coordinates e ?s1 = Inr ?s1"
    using assign_coordinates_node [OF node, of ?s1] by simp
  have same: "check_element ev e s = check_element ev e ?s1"
    by (simp add: check_element_def a a')
  have "lat ?s1 = Bound (el_lat e)" and "lon ?s1 = Bound (el_lon e)"
    by simp_all
  from check_element_reuses [OF a' this, of ev] obtain s' where
    s': "check_element ev e ?s1 = Inr s'"
      "lat s' = Bound (el_lat e)" "lon s' = Bound (el_lon e)"
      "if dict_get (tags_of e) ''diet:vegan'' [] = ''no''
       then features s' = features ?s1
       else \<exists>f. features s' = features ?s1 @ [f] \<and> coordinates f = (el_lon e, el_lat e)"
    by blast
  have keep: "features ?s1 = features s"
    by simp
  from s'(4) have "if dict_get (tags_of e) ''diet:vegan'' [] = ''no''
       then features s' = features s
       else \<exists>f. features s' = features s @ [f] \<and> coordinates f = (el_lon e, el_lat e)"
    unfolding keep .
  with s'(1-3) same
  show "\<exists>s'. check_element ev e s = Inr s'
         \<and> lat s' = Bound (el_lat e) \<and> lon s' = Bound (el_lon e)
         \<and> (if dict_get (tags_of e) ''diet:vegan'' [] = ''no''
             then features s' = features s
             else \<exists>f. features s' = features s @ [f] \<and> coordinates f = (el_lon e, el_lat e))"
    by (intro exI [of _ s']) simp
qed

theorem missing_center_raises_missing_lat_lon_does_not_witness:
  "(el_type way_without_center = ''way'' \<or> el_type way_without_center = ''relation'')
   \<and> el_center way_without_center = None
   \<and> way_without_center \<in> set (elements \<lparr>elements = [green_bowl, way_without_center]\<rparr>)
   \<and> check_data example_env \<lparr>elements = [green_bowl, way_without_center]\<rparr> empty_world =
        Inl AttributeError
   \<and> el_type node_without_coordinates = ''node''
   \<and> check_element example_env node_without_coordinates
        \<lparr>features = [], lat = Unbound, lon = Unbound, the_world = empty_world\<rparr> =
      Inr \<lparr>features = [node_without_coordinates_report], lat = Bound None, lon = Bound None,
           the_world = empty_world\<rparr>"
proof -
  have way: "(el_type way_without_center = ''way'' \<or> el_type way_without_center = ''relation'')
      \<and> el_center way_without_center = None"
    by (simp add: way_without_center_def)
  have mem: "way_without_center \<in> set (elements \<lparr>elements = [green_bowl, way_without_center]\<rparr>)"
    by simp
  have run: "check_data example_env \<lparr>elements = [green_bowl, way_without_center]\<rparr> empty_world =
        Inl AttributeError"
    by code_simp
  have node: "el_type node_without_coordinates = ''node''"
    by (simp add: node_without_coordinates_def)
  have step: "check_element example_env node_without_coordinates
        \<lparr>features = [], lat = Unbound, lon = Unbound, the_world = empty_world\<rparr> =
      Inr \<lparr>features = [node_without_coordinates_report], lat = Bound None, lon = Bound None,
           the_world = empty_world\<rparr>"
    by code_simp
  from missing_center_raises_missing_lat_lon_does_not
         [of way_without_center example_env
            "\<lparr>features = [], lat = Unbound, lon = Unbound, the_world = empty_world\<rparr>"
            "\<lparr>elements = [green_bowl, way_without_center]\<rparr>" empty_world]
       way mem run node step
  show ?thesis by simp
qed

text \<open>
  A run over the one node without \<open>lat\<close> and \<open>lon\<close> ends without an error, and the
  report of the node is there, with both coordinates \<open>None\<close>.
\<close>

theorem missing_lat_lon_counterexample:
  "el_type node_without_coordinates = ''node''
   \<and> el_lat node_without_coordinates = None \<and> el_lon node_without_coordinates = None
   \<and> check_data example_env \<lparr>elements = [node_without_coordinates]\<rparr> empty_world =
       Inr (\<lparr>timestamp = ''2024-03-01 12:00:00.000000'',
             result_features = [node_without_coordinates_report]\<rparr>, empty_world)"
  by code_simp

lemma known_type_iff:
  "known_type t \<longleftrightarrow> t = ''node'' \<or> t = ''way'' \<or> t = ''relation''"
  by (simp add: known_type_def)

lemma assign_coordinates_other:
  "\<not> known_type (el_type e) \<Longrightarrow> assign_coordinates e s = Inr s"
  by (simp add: assign_coordinates_def known_type_def)

lemma assign_coordinates_center:
  "el_type q = ''way'' \<or> el_type q = ''relation'' \<Longrightarrow> el_center q = Some c \<Longrightarrow>
     assign_coordinates q t =
       Inr (t\<lparr>lat := Bound (center_lat c), lon := Bound (center_lon c)\<rparr>)"
  by (auto simp: assign_coordinates_def)

lemma check_element_returns:
  assumes "assign_coordinates q t = Inr t1" and "lat t1 = Bound la" and "lon t1 = Bound lo"
  shows "\<exists>t'. check_element ev q t = Inr t'"
  using check_element_bound [OF assms, of ev] by simp

lemma check_element_node_returns:
  "el_type q = ''node'' \<Longrightarrow> \<exists>t'. check_element ev q t = Inr t'"
  by (rule check_element_returns [OF assign_coordinates_node]) simp_all

lemma check_element_center_returns:
  "el_type q = ''way'' \<or> el_type q = ''relation'' \<Longrightarrow> el_center q = Some c \<Longrightarrow>
     \<exists>t'. check_element ev q t = Inr t'"
  by (rule check_element_returns [OF assign_coordinates_center]) simp_all

lemma check_element_no_center:
  "el_type q = ''way'' \<or> el_type q = ''relation'' \<Longrightarrow> el_center q = None \<Longrightarrow>
     check_element ev q t = Inl AttributeError"
  by (simp add: check_element_def assign_coordinates_no_center)

lemma check_data_other_first:
  assumes "\<not> known_type (el_type x)"
  shows "check_data ev \<lparr>elements = x # xs\<rparr> w = Inl UnboundLocalError"
  using check_element_unbound
          [OF assign_coordinates_other [OF assms],
           of "\<lparr>features = [], lat = Unbound, lon = Unbound, the_world = w\<rparr>" ev]
  by (simp add: check_data_def)

lemma check_loop_append:
  "check_loop ev (xs @ ys) s =
     (case check_loop ev xs s of Inl err \<Rightarrow> Inl err | Inr s1 \<Rightarrow> check_loop ev ys s1)"
  by (induction xs arbitrary: s) (auto split: sum.splits)

lemma check_element_other_keeps:
  assumes "\<not> known_type (el_type m)" and "check_element ev m s = Inr s'"
  shows "lat s' = lat s \<and> lon s' = lon s"
  using check_element_Inr [OF assms(2)] assign_coordinates_other [OF assms(1), of s]
  by auto

lemma check_loop_other_keeps:
  assumes "\<forall>m \<in> set mid. \<not> known_type (el_type m)" and "check_loop ev mid s = Inr s'"
  shows "lat s' = lat s \<and> lon s' = lon s"
  using assms
proof (induction mid arbitrary: s)
  case Nil
  then show ?case by simp
next
  case (Cons m mid)
  from Cons.prems(2) obtain s1 where s1: "check_element ev m s = Inr s1"
    and rest: "check_loop ev mid s1 = Inr s'"
    by (cases "check_element ev m s") simp_all
  from Cons.prems(1) have "\<not> known_type (el_type m)"
    and others: "\<forall>m \<in> set mid. \<not> known_type (el_type m)"
    by simp_all
  from check_element_other_keeps [OF this(1) s1] Cons.IH [OF others rest]
  show ?case by simp
qed

text \<open>
  After a run over a part of the input, \<open>lat\<close> and \<open>lon\<close> hold what the last element
  of a known type assigned.
\<close>

lemma check_loop_last_known:
  assumes "check_loop ev (pre @ p # mid) s0 = Inr s"
    and "known_type (el_type p)"
    and "\<forall>m \<in> set mid. \<not> known_type (el_type m)"
  shows "\<exists>la lo. lat s = Bound la \<and> lon s = Bound lo
           \<and> (el_type p = ''node'' \<longrightarrow> la = el_lat p \<and> lo = el_lon p)
           \<and> (el_type p \<noteq> ''node'' \<longrightarrow>
                (\<exists>c. el_center p = Some c \<and> la = center_lat c \<and> lo = center_lon c))"
proof -
  from assms(1) obtain s1 where "check_loop ev (p # mid) s1 = Inr s"
    by (auto simp: check_loop_append split: sum.splits)
  then obtain s2 where p: "check_element ev p s1 = Inr s2"
    and mid: "check_loop ev mid s2 = Inr s"
    by (cases "check_element ev p s1") simp_all
  from assms(2) have "el_type p = ''node'' \<or> el_type p = ''way'' \<or> el_type p = ''relation''"
    by (simp add: known_type_def)
  from check_element_assigns [OF p this] check_loop_other_keeps [OF assms(3) mid]
  show ?thesis by simp
qed

text \<open>
  C10, as the code has it. An element whose type is none of \<open>node\<close>, \<open>way\<close> and
  \<open>relation\<close> assigns neither \<open>lat\<close> nor \<open>lon\<close>. While they are unbound, building the
  geometry raises UnboundLocalError: a run ends so when no element of a known type
  comes before such an element in the input. When an element of a known type does
  come before it, and the run gets as far, the element is checked without an error,
  with the coordinates that the last such element assigned. Nor is the check total
  over the three known types: a node never fails at its coordinates, a way or a
  relation raises AttributeError exactly when it has no \<open>center\<close>.
\<close>

theorem unknown_type_assigns_no_coordinates:
  assumes "\<not> known_type (el_type e)"
  shows "assign_coordinates e s = Inr s
       \<and> (lat s = Unbound \<or> lon s = Unbound \<longrightarrow> check_element ev e s = Inl UnboundLocalError)
       \<and> (\<forall>pre :: osm_element list. (\<forall>m \<in> set pre. \<not> known_type (el_type m)) \<longrightarrow>
            check_data ev \<lparr>elements = pre @ e # rest\<rparr> w = Inl UnboundLocalError)
       \<and> (\<forall>la lo. lat s = Bound la \<and> lon s = Bound lo \<longrightarrow>
            (\<exists>s'. check_element ev e s = Inr s' \<and> lat s' = Bound la \<and> lon s' = Bound lo
               \<and> (if dict_get (tags_of e) ''diet:vegan'' [] = ''no''
                   then features s' = features s
                   else \<exists>f. features s' = features s @ [f] \<and> coordinates f = (lo, la))))
       \<and> (\<forall>pre p mid s0.
            check_loop ev (pre @ p # mid) s0 = Inr s \<and> known_type (el_type p)
              \<and> (\<forall>m \<in> set mid. \<not> known_type (el_type m)) \<longrightarrow>
            (\<exists>la lo s'. lat s = Bound la \<and> lon s = Bound lo
               \<and> (el_type p = ''node'' \<longrightarrow> la = el_lat p \<and> lo = el_lon p)
               \<and> (el_type p \<noteq> ''node'' \<longrightarrow>
                    (\<exists>c. el_center p = Some c \<and> la = center_lat c \<and> lo = center_lon c))
               \<and> check_element ev e s = Inr s'
               \<and> (if dict_get (tags_of e) ''diet:vegan'' [] = ''no''
                   then features s' = features s
                   else \<exists>f. features s' = features s @ [f] \<and> coordinates f = (lo, la))))
       \<and> (\<forall>q t. el_type q = ''node'' \<longrightarrow> (\<exists>t'. check_element ev q t = Inr t'))
       \<and> (\<forall>q t. el_type q = ''way'' \<or> el_type q = ''relation'' \<longrightarrow>
            (el_center q = None \<longrightarrow> check_element ev q t = Inl AttributeError)
            \<and> (el_center q \<noteq> None \<longrightarrow> (\<exists>t'. check_element ev q t = Inr t')))"
proof -
  have a: "assign_coordinates e s0 = Inr s0" for s0
    by (rule assign_coordinates_other [OF assms])
  have unbound: "lat s = Unbound \<or> lon s = Unbound \<longrightarrow> check_element ev e s = Inl UnboundLocalError"
    using check_element_unbound [OF a, of s ev] by blast
  have first: "\<forall>pre :: osm_element list. (\<forall>m \<in> set pre. \<not> known_type (el_type m)) \<longrightarrow>
      check_data ev \<lparr>elements = pre @ e # rest\<rparr> w = Inl UnboundLocalError"
  proof (intro allI impI)
    fix pre :: "osm_element list"
    assume others: "\<forall>m \<in> set pre. \<not> known_type (el_type m)"
    show "check_data ev \<lparr>elements = pre @ e # rest\<rparr> w = Inl UnboundLocalError"
    proof (cases pre)
      case Nil
      with check_data_other_first [OF assms, of ev rest w] show ?thesis by simp
    next
      case (Cons x xs)
      with others have "\<not> known_type (el_type x)" by simp
      from check_data_other_first [OF this, of ev "xs @ e # rest" w] Cons
      show ?thesis by simp
    qed
  qed
  have bound: "\<forall>la lo. lat s = Bound la \<and> lon s = Bound lo \<longrightarrow>
            (\<exists>s'. check_element ev e s = Inr s' \<and> lat s' = Bound la \<and> lon s' = Bound lo
               \<and> (if dict_get (tags_of e) ''diet:vegan'' [] = ''no''
                   then features s' = features s
                   else \<exists>f. features s' = features s @ [f] \<and> coordinates f = (lo, la)))"
    using check_element_reuses [OF a, of s _ _ ev] by blast
  have after: "\<forall>pre p mid s0.
            check_loop ev (pre @ p # mid) s0 = Inr s \<and> known_type (el_type p)
              \<and> (\<forall>m \<in> set mid. \<not> known_type (el_type m)) \<longrightarrow>
            (\<exists>la lo s'. lat s = Bound la \<and> lon s = Bound lo
               \<and> (el_type p = ''node'' \<longrightarrow> la = el_lat p \<and> lo = el_lon p)
               \<and> (el_type p \<noteq> ''node'' \<longrightarrow>
                    (\<exists>c. el_center p = Some c \<and> la = center_lat c \<and> lo = center_lon c))
               \<and> check_element ev e s = Inr s'
               \<and> (if dict_get (tags_of e) ''diet:vegan'' [] = ''no''
                   then features s' = features s
                   else \<exists>f. features s' = features s @ [f] \<and> coordinates f = (lo, la)))"
  proof (intro allI impI)
    fix pre p mid s0
    assume h: "check_loop ev (pre @ p # mid) s0 = Inr s \<and> known_type (el_type p)
              \<and> (\<forall>m \<in> set mid. \<not> known_type (el_type m))"
    then have run: "check_loop ev (pre @ p # mid) s0 = Inr s"
      and known: "known_type (el_type p)"
      and others: "\<forall>m \<in> set mid. \<not> known_type (el_type m)"
      by simp_all
    from check_loop_last_known [OF run known others] obtain la lo where
      la: "lat s = Bound la" and lo: "lon s = Bound lo"
      and whose: "el_type p = ''node'' \<longrightarrow> la = el_lat p \<and> lo = el_lon p"
        "el_type p \<noteq> ''node'' \<longrightarrow>
           (\<exists>c. el_center p = Some c \<and> la = center_lat c \<and> lo = center_lon c)"
      by blast
    from check_element_reuses [OF a la lo, of ev] obtain s' where
      "check_element ev e s = Inr s'"
      "if dict_get (tags_of e) ''diet:vegan'' [] = ''no''
       then features s' = features s
       else \<exists>f. features s' = features s @ [f] \<and> coordinates f = (lo, la)"
      by blast
    with la lo whose
    show "\<exists>la lo s'. lat s = Bound la \<and> lon s = Bound lo
               \<and> (el_type p = ''node'' \<longrightarrow> la = el_lat p \<and> lo = el_lon p)
               \<and> (el_type p \<noteq> ''node'' \<longrightarrow>
                    (\<exists>c. el_center p = Some c \<and> la = center_lat c \<and> lo = center_lon c))
               \<and> check_element ev e s = Inr s'
               \<and> (if dict_get (tags_of e) ''diet:vegan'' [] = ''no''
                   then features s' = features s
                   else \<exists>f. features s' = features s @ [f] \<and> coordinates f = (lo, la))"
      by blast
  qed
  have node: "\<forall>q t. el_type q = ''node'' \<longrightarrow> (\<exists>t'. check_element ev q t = Inr t')"
    by (simp add: check_element_node_returns)
  have area: "\<forall>q t. el_type q = ''way'' \<or> el_type q = ''relation'' \<longrightarrow>
            (el_center q = None \<longrightarrow> check_element ev q t = Inl AttributeError)
            \<and> (el_center q \<noteq> None \<longrightarrow> (\<exists>t'. check_element ev q t = Inr t'))"
    using check_element_no_center check_element_center_returns by blast
  from a [of s] unbound first bound after node area show ?thesis
    by (intro conjI)
qed

theorem unknown_type_assigns_no_coordinates_witness:
  "\<not> known_type (el_type area_place)
   \<and> check_data example_env \<lparr>elements = [area_place, green_bowl]\<rparr> empty_world =
        Inl UnboundLocalError
   \<and> check_data example_env \<lparr>elements = [green_bowl, area_place]\<rparr> empty_world =
        Inr (\<lparr>timestamp = ''2024-03-01 12:00:00.000000'',
              result_features = [green_bowl_report, area_place_report]\<rparr>, empty_world)
   \<and> coordinates area_place_report = (el_lon green_bowl, el_lat green_bowl)
   \<and> el_type node_without_coordinates = ''node''
   \<and> check_element example_env node_without_coordinates
        \<lparr>features = [], lat = Unbound, lon = Unbound, the_world = empty_world\<rparr> =
      Inr \<lparr>features = [node_without_coordinates_report], lat = Bound None, lon = Bound None,
           the_world = empty_world\<rparr>
   \<and> el_type way_without_center = ''way'' \<and> el_center way_without_center = None
   \<and> check_element example_env way_without_center
        \<lparr>features = [], lat = Bound (Some 1), lon = Bound (Some 2), the_world = empty_world\<rparr> =
      Inl AttributeError"
proof -
  have ty: "\<not> known_type (el_type area_place)"
    by (simp add: area_place_def known_type_def)
  have later: "check_data example_env \<lparr>elements = [green_bowl, area_place]\<rparr> empty_world =
        Inr (\<lparr>timestamp = ''2024-03-01 12:00:00.000000'',
              result_features = [green_bowl_report, area_place_report]\<rparr>, empty_world)"
    by code_simp
  have crd: "coordinates area_place_report = (el_lon green_bowl, el_lat green_bowl)"
    by (simp add: area_place_report_def green_bowl_def)
  have node: "el_type node_without_coordinates = ''node''"
    by (simp add: node_without_coordinates_def)
  have node_run: "check_element example_env node_without_coordinates
        \<lparr>features = [], lat = Unbound, lon = Unbound, the_world = empty_world\<rparr> =
      Inr \<lparr>features = [node_without_coordinates_report], lat = Bound None, lon = Bound None,
           the_world = empty_world\<rparr>"
    by code_simp
  have way: "el_type way_without_center = ''way''" "el_center way_without_center = None"
    by (simp_all add: way_without_center_def)
  note inst = unknown_type_assigns_no_coordinates
         [OF ty, of "\<lparr>features = [], lat = Unbound, lon = Unbound, the_world = empty_world\<rparr>"
            example_env "[green_bowl]" empty_world]
  from inst have "\<forall>pre :: osm_element list. (\<forall>m \<in> set pre. \<not> known_type (el_type m)) \<longrightarrow>
      check_data example_env \<lparr>elements = pre @ area_place # [green_bowl]\<rparr> empty_world =
        Inl UnboundLocalError"
    by blast
  from this [rule_format, of "[] :: osm_element list"]
  have first: "check_data example_env \<lparr>elements = [area_place, green_bowl]\<rparr> empty_world =
        Inl UnboundLocalError"
    by simp
  from inst way have way_run: "check_element example_env way_without_center
        \<lparr>features = [], lat = Bound (Some 1), lon = Bound (Some 2), the_world = empty_world\<rparr> =
      Inl AttributeError"
    by blast
  from ty first later crd node node_run way way_run show ?thesis
    by (intro conjI)
qed

text \<open>
  In a run over a node and then an element of the type \<open>area\<close>, that element is the
  first of an unknown type, and the run ends without an error: its report carries the
  coordinates of the node. And a run over the one way without \<open>center\<close>, which is of a
  known type, ends in an error.
\<close>

theorem first_unknown_type_counterexample:
  "el_type green_bowl = ''node''
   \<and> \<not> known_type (el_type area_place)
   \<and> check_data example_env \<lparr>elements = [green_bowl, area_place]\<rparr> empty_world =
        Inr (\<lparr>timestamp = ''2024-03-01 12:00:00.000000'',
              result_features = [green_bowl_report, area_place_report]\<rparr>, empty_world)
   \<and> coordinates area_place_report = coordinates green_bowl_report
   \<and> known_type (el_type way_without_center)
   \<and> check_data example_env \<lparr>elements = [way_without_center]\<rparr> empty_world =
        Inl AttributeError"
  by code_simp

subsection \<open>The URL data during a run\<close>

text \<open>No check assigns to \<open>url_data\<close>: every lookup of a run reads the pruned file.\<close>

lemma issue_if_simps:
  "issues_list (issue_if b msg a) = issues_list a @ (if b then [msg] else [])"
  "undefined_list (issue_if b msg a) = undefined_list a"
  "wld (issue_if b msg a) = wld a"
  by (simp_all add: issue_if_def add_issue_def)

lemma undefined_if_simps:
  "issues_list (undefined_if b k a) = issues_list a"
  "wld (undefined_if b k a) = wld a"
  by (simp_all add: undefined_if_def add_undefined_def)

lemma url_issue_simps:
  "issues_list (url_issue ev url msg a) =
     issues_list a @ (if \<not> entry_isOk (fst (is_url_ok ev url (wld a))) then [msg] else [])"
  "undefined_list (url_issue ev url msg a) = undefined_list a"
  "wld (url_issue ev url msg a) = snd (is_url_ok ev url (wld a))"
  by (simp_all add: url_issue_def issue_if_simps split_beta)

lemma check_website_uri_url_data:
  "url_data (wld (snd (check_website_uri ev tags a))) = url_data (wld a)"
  by (simp add: check_website_uri_def Let_def url_issue_simps is_url_ok_url_data)

lemma check_website_url_data:
  "url_data (wld (check_website ev tags a)) = url_data (wld a)"
  by (simp add: check_website_def Let_def split_beta issue_if_simps check_website_uri_url_data)

lemma check_facebook_url_data:
  "url_data (wld (check_facebook ev tags a)) = url_data (wld a)"
  by (simp add: check_facebook_def Let_def issue_if_simps url_issue_simps add_issue_def
      is_url_ok_url_data)

lemma check_instagram_url_data:
  "url_data (wld (check_instagram ev tags a)) = url_data (wld a)"
  by (simp add: check_instagram_def Let_def issue_if_simps url_issue_simps add_issue_def
      is_url_ok_url_data)

lemma check_email_wld: "wld (check_email ev tags a) = wld a"
  by (simp add: check_email_def Let_def issue_if_simps add_issue_def split: option.split)

lemma check_phone_wld: "wld (check_phone tags a) = wld a"
  by (simp add: check_phone_def Let_def issue_if_simps)

lemma check_opening_hours_wld: "wld (check_opening_hours tags a) = wld a"
  by (simp add: check_opening_hours_def Let_def issue_if_simps add_undefined_def)

lemma check_disused_wld: "wld (check_disused tags a) = wld a"
  by (simp add: check_disused_def issue_if_simps)

lemma check_address_wld: "wld (check_address tags a) = wld a"
  by (simp add: check_address_def Let_def undefined_if_simps)

lemma check_cuisine_wld: "wld (check_cuisine tags a) = wld a"
  by (simp add: check_cuisine_def undefined_if_simps)

lemma deep_checks_url_data:
  "url_data (wld (deep_checks ev tags a)) = url_data (wld a)"
  by (simp add: deep_checks_def check_disused_wld check_opening_hours_wld check_phone_wld
      check_email_wld check_instagram_url_data check_facebook_url_data check_website_url_data
      check_address_wld check_cuisine_wld)

lemma check_name_wld: "wld (snd (check_name e tags a)) = wld a"
  by (simp add: check_name_def Let_def add_undefined_def)

lemma check_diet_wld: "wld (snd (check_diet tags a)) = wld a"
  by (simp add: check_diet_def Let_def issue_if_simps add_undefined_def)

lemma check_place_url_data:
  assumes "check_place ev e crd w = Some (f, w')"
  shows "url_data w' = url_data w"
proof -
  from assms have "w' = wld (deep_checks ev (tags_of e)
      (snd (check_diet (tags_of e)
        (snd (check_name e (tags_of e) \<lparr>undefined_list = [], issues_list = [], wld = w\<rparr>)))))"
    by (auto simp: check_place_def Let_def split_beta split: if_splits)
  then show ?thesis
    by (simp add: deep_checks_url_data check_diet_wld check_name_wld)
qed

lemma check_element_url_data:
  assumes "check_element ev e s = Inr s'"
  shows "url_data (the_world s') = url_data (the_world s)"
proof -
  from check_element_Inr [OF assms] obtain crd where
    step: "case check_place ev e crd (the_world s) of
             None \<Rightarrow> features s' = features s \<and> the_world s' = the_world s
           | Some (f, w) \<Rightarrow> features s' = features s @ [f] \<and> the_world s' = w"
    by blast
  show ?thesis
  proof (cases "check_place ev e crd (the_world s)")
    case None
    with step show ?thesis by simp
  next
    case (Some fw)
    obtain f w where fw: "fw = (f, w)" by (cases fw)
    from step Some fw check_place_url_data [OF Some [unfolded fw]] show ?thesis by simp
  qed
qed

lemma check_loop_url_data:
  "check_loop ev es s = Inr s' \<Longrightarrow> url_data (the_world s') = url_data (the_world s)"
proof (induction es arbitrary: s)
  case Nil
  then show ?case by simp
next
  case (Cons e es)
  from Cons.prems obtain s1 where s1: "check_element ev e s = Inr s1"
    and rest: "check_loop ev es s1 = Inr s'"
    by (cases "check_element ev e s") simp_all
  from Cons.IH [OF rest] check_element_url_data [OF s1] show ?case by simp
qed

lemma check_data_url_data:
  "check_data ev data w = Inr (result, w') \<Longrightarrow> url_data w' = url_data w"
  by (auto simp: check_data_def split: sum.splits dest: check_loop_url_data)

subsection \<open>Pruning\<close>

lemma map_of_dict_del:
  "map_of (dict_del k d) k' = (if k' = k then None else map_of d k')"
  by (induction d) (auto simp: dict_del_def)

lemma prune_result:
  assumes "strptime ev (DATE ev) = Some today"
    and "prune ev ks ud = Inr pruned"
  shows "map_of pruned url =
           (case map_of ud url of
              None \<Rightarrow> None
            | Some entry \<Rightarrow>
                (case strptime ev (entry_date entry) of
                   None \<Rightarrow> Some entry
                 | Some d \<Rightarrow> if url \<in> set ks \<and> today - d > 28 then None else Some entry))"
  using assms(2)
proof (induction ks arbitrary: ud)
  case Nil
  then show ?case by (simp split: option.split)
next
  case (Cons k ks)
  from Cons.prems assms(1) obtain entry d where
    entry: "map_of ud k = Some entry" and d: "strptime ev (entry_date entry) = Some d"
    by (auto split: option.splits)
  show ?case
  proof (cases "today - d > 28")
    case True
    with Cons.prems assms(1) entry d have "prune ev ks (dict_del k ud) = Inr pruned"
      by simp
    from Cons.IH [OF this] True entry d show ?thesis
      by (auto simp: map_of_dict_del split: option.splits)
  next
    case False
    with Cons.prems assms(1) entry d have "prune ev ks ud = Inr pruned"
      by simp
    from Cons.IH [OF this] False entry d show ?thesis
      by (auto split: option.splits)
  qed
qed

lemma prune_total:
  assumes "strptime ev (DATE ev) = Some today"
    and "distinct ks"
    and "set ks \<subseteq> dom (map_of ud)"
    and "list_all (\<lambda>kv. strptime ev (entry_date (snd kv)) \<noteq> None) ud"
  shows "\<exists>pruned. prune ev ks ud = Inr pruned"
  using assms(2-)
proof (induction ks arbitrary: ud)
  case Nil
  then show ?case by simp
next
  case (Cons k ks)
  from Cons.prems(2) obtain entry where entry: "map_of ud k = Some entry"
    by auto
  then have "(k, entry) \<in> set ud"
    by (rule map_of_SomeD)
  with Cons.prems(3) obtain d where d: "strptime ev (entry_date entry) = Some d"
    by (auto simp: list_all_iff)
  show ?case
  proof (cases "today - d > 28")
    case True
    have "set ks \<subseteq> dom (map_of (dict_del k ud))"
      using Cons.prems(1,2) by (auto simp: map_of_dict_del dom_def)
    moreover have "list_all (\<lambda>kv. strptime ev (entry_date (snd kv)) \<noteq> None) (dict_del k ud)"
      using Cons.prems(3) by (simp add: list_all_iff dict_del_def)
    moreover from Cons.prems(1) have "distinct ks" by simp
    ultimately obtain pruned where "prune ev ks (dict_del k ud) = Inr pruned"
      using Cons.IH by blast
    with True entry d assms(1) show ?thesis by simp
  next
    case False
    from Cons.prems have "\<exists>pruned. prune ev ks ud = Inr pruned"
      by (intro Cons.IH) simp_all
    with False entry d assms(1) show ?thesis by simp
  qed
qed

text \<open>
  C7. When the keys of the URL data file are distinct and every date parses, the run
  first prunes the file without an error: an entry is removed when today is more than
  28 days after its date and kept as it is otherwise (28 days included), and no entry
  is added. The checks of the run start from the pruned URL data, and the file the
  run rewrites is the pruned URL data.
\<close>

theorem main_prunes_entries_older_than_28_days:
  assumes "distinct (map fst url_file)"
    and "strptime ev (DATE ev) = Some today"
    and "list_all (\<lambda>kv. strptime ev (entry_date (snd kv)) \<noteq> None) url_file"
  shows "\<exists>pruned. prune ev (map fst url_file) url_file = Inr pruned
       \<and> (\<forall>url entry d.
             map_of url_file url = Some entry \<and> strptime ev (entry_date entry) = Some d \<longrightarrow>
             map_of pruned url = (if today - d > 28 then None else Some entry))
       \<and> (\<forall>url. map_of url_file url = None \<longrightarrow> map_of pruned url = None)
       \<and> main ev url_file None =
           Inr \<lparr>check_result_file = None, url_data_file = pruned, requests_made = []\<rparr>
       \<and> (\<forall>data. main ev url_file (Some data) =
             (case check_data ev data \<lparr>url_data = pruned, net_log = []\<rparr> of
                Inl err \<Rightarrow> Inl err
              | Inr (check_result, w) \<Rightarrow>
                  Inr \<lparr>check_result_file = Some check_result, url_data_file = pruned,
                       requests_made = net_log w\<rparr>))"
proof -
  have "set (map fst url_file) \<subseteq> dom (map_of url_file)"
    by (simp add: dom_map_of_conv_image_fst)
  from prune_total [OF assms(2) assms(1) this assms(3)]
  obtain pruned where pruned: "prune ev (map fst url_file) url_file = Inr pruned"
    by blast
  note res = prune_result [OF assms(2) pruned]
  have old: "\<forall>url entry d.
      map_of url_file url = Some entry \<and> strptime ev (entry_date entry) = Some d \<longrightarrow>
      map_of pruned url = (if today - d > 28 then None else Some entry)"
  proof (intro allI impI)
    fix url entry d
    assume h: "map_of url_file url = Some entry \<and> strptime ev (entry_date entry) = Some d"
    then have "url \<in> set (map fst url_file)"
      by (auto dest: map_of_SomeD intro: rev_image_eqI)
    with res [of url] h
    show "map_of pruned url = (if today - d > 28 then None else Some entry)"
      by simp
  qed
  have none: "\<forall>url. map_of url_file url = None \<longrightarrow> map_of pruned url = None"
    using res by simp
  have null: "main ev url_file None =
      Inr \<lparr>check_result_file = None, url_data_file = pruned, requests_made = []\<rparr>"
    by (simp add: main_def pruned)
  have run: "main ev url_file (Some data) =
      (case check_data ev data \<lparr>url_data = pruned, net_log = []\<rparr> of
         Inl err \<Rightarrow> Inl err
       | Inr (check_result, w) \<Rightarrow>
           Inr \<lparr>check_result_file = Some check_result, url_data_file = pruned,
                requests_made = net_log w\<rparr>)" for data
  proof (cases "check_data ev data \<lparr>url_data = pruned, net_log = []\<rparr>")
    case (Inl err)
    then show ?thesis by (simp add: main_def pruned)
  next
    case (Inr rw)
    obtain r w where rw: "rw = (r, w)" by (cases rw)
    from check_data_url_data [OF Inr [unfolded rw]] have "url_data w = pruned" by simp
    with Inr rw show ?thesis by (simp add: main_def pruned)
  qed
  from pruned old none null run show ?thesis by blast
qed

theorem main_prunes_entries_older_than_28_days_witness:
  "distinct (map fst example_url_file)
   \<and> strptime example_env (DATE example_env) = Some 738946
   \<and> list_all (\<lambda>kv. strptime example_env (entry_date (snd kv)) \<noteq> None) example_url_file
   \<and> main example_env example_url_file None =
       Inr \<lparr>check_result_file = None, url_data_file = example_url_file_pruned,
            requests_made = []\<rparr>
   \<and> map_of example_url_file_pruned ''https://old.example'' = None
   \<and> map_of example_url_file_pruned ''https://edge.example'' =
       map_of example_url_file ''https://edge.example''
   \<and> map_of example_url_file_pruned ''https://a.example'' =
       map_of example_url_file ''https://a.example''"
proof -
  have keys: "distinct (map fst example_url_file)"
    by code_simp
  have today: "strptime example_env (DATE example_env) = Some 738946"
    by code_simp
  have dates: "list_all (\<lambda>kv. strptime example_env (entry_date (snd kv)) \<noteq> None)
      example_url_file"
    by code_simp
  have run: "main example_env example_url_file None =
       Inr \<lparr>check_result_file = None, url_data_file = example_url_file_pruned,
            requests_made = []\<rparr>"
    by code_simp
  have rest: "map_of example_url_file_pruned ''https://old.example'' = None"
    "map_of example_url_file_pruned ''https://edge.example'' =
       map_of example_url_file ''https://edge.example''"
    "map_of example_url_file_pruned ''https://a.example'' =
       map_of example_url_file ''https://a.example''"
    by (simp_all add: example_url_file_pruned_def example_url_file_def)
  from main_prunes_entries_older_than_28_days [OF keys today dates] keys today dates run rest
  show ?thesis by simp
qed

subsection \<open>The website check\<close>

text \<open>
  C8, as the code has it. Each of \<open>contact:website\<close> and \<open>website\<close> that is present is
  checked with \<open>is_url_ok\<close>, \<open>contact:website\<close> first, and a result that is not ok
  appends the issue naming that tag. The URL kept in \<open>website\<close> is the one of the
  \<open>website\<close> tag if present, else the one of \<open>contact:website\<close>, else the text
  \<open>undefined\<close>; the Facebook and the Instagram hint are appended exactly when that URL
  contains \<open>facebook\<close> and \<open>instagram\<close>.
\<close>

theorem check_website_issues:
  "fst (check_website_uri ev tags a) =
     (if has_key ''website'' tags then dict_get tags ''website'' []
      else if has_key ''contact:website'' tags then dict_get tags ''contact:website'' []
      else ''undefined'')
   \<and> issues_list (check_website ev tags a) =
       issues_list a
       @ (if has_key ''contact:website'' tags
             \<and> \<not> entry_isOk (fst (is_url_ok ev (dict_get tags ''contact:website'' []) (wld a)))
          then ['''contact:website' URI invalid''] else [])
       @ (if has_key ''website'' tags
             \<and> \<not> entry_isOk (fst (is_url_ok ev (dict_get tags ''website'' [])
                   (if has_key ''contact:website'' tags
                    then snd (is_url_ok ev (dict_get tags ''contact:website'' []) (wld a))
                    else wld a)))
          then ['''website' URI invalid''] else [])
       @ (if str_in ''facebook'' (fst (check_website_uri ev tags a))
          then ['''facebook' URI as website -> change to 'contact:facebook'' @ apos] else [])
       @ (if str_in ''instagram'' (fst (check_website_uri ev tags a))
          then ['''instagram' URI as website -> change to 'contact:instagram'' @ apos] else [])
       @ (if has_key ''contact:website'' tags \<and> has_key ''website'' tags
          then ['''website' and 'contact:website' defined -> remove one''] else [])"
proof -
  have uri: "fst (check_website_uri ev tags a) =
     (if has_key ''website'' tags then dict_get tags ''website'' []
      else if has_key ''contact:website'' tags then dict_get tags ''contact:website'' []
      else ''undefined'')"
    by (simp add: check_website_uri_def Let_def)
  have checked: "issues_list (snd (check_website_uri ev tags a)) =
       issues_list a
       @ (if has_key ''contact:website'' tags
             \<and> \<not> entry_isOk (fst (is_url_ok ev (dict_get tags ''contact:website'' []) (wld a)))
          then ['''contact:website' URI invalid''] else [])
       @ (if has_key ''website'' tags
             \<and> \<not> entry_isOk (fst (is_url_ok ev (dict_get tags ''website'' [])
                   (if has_key ''contact:website'' tags
                    then snd (is_url_ok ev (dict_get tags ''contact:website'' []) (wld a))
                    else wld a)))
          then ['''website' URI invalid''] else [])"
    by (simp add: check_website_uri_def Let_def url_issue_simps)
  have "issues_list (check_website ev tags a) =
       issues_list (snd (check_website_uri ev tags a))
       @ (if str_in ''facebook'' (fst (check_website_uri ev tags a))
          then ['''facebook' URI as website -> change to 'contact:facebook'' @ apos] else [])
       @ (if str_in ''instagram'' (fst (check_website_uri ev tags a))
          then ['''instagram' URI as website -> change to 'contact:instagram'' @ apos] else [])
       @ (if has_key ''contact:website'' tags \<and> has_key ''website'' tags
          then ['''website' and 'contact:website' defined -> remove one''] else [])"
    by (simp add: check_website_def Let_def split_beta issue_if_simps)
  with uri checked show ?thesis
    by (simp only: append_assoc simp_thms)
qed

theorem check_website_issues_witness:
  "fst (check_website_uri example_env both_websites
          \<lparr>undefined_list = [], issues_list = [], wld = empty_world\<rparr>) = ''https://a.example''
   \<and> issues_list (check_website example_env both_websites
          \<lparr>undefined_list = [], issues_list = [], wld = empty_world\<rparr>) =
       ['''website' and 'contact:website' defined -> remove one'']"
proof -
  have uri: "fst (check_website_uri example_env both_websites
          \<lparr>undefined_list = [], issues_list = [], wld = empty_world\<rparr>) = ''https://a.example''"
    by code_simp
  have issues: "issues_list (check_website example_env both_websites
          \<lparr>undefined_list = [], issues_list = [], wld = empty_world\<rparr>) =
       ['''website' and 'contact:website' defined -> remove one'']"
    by code_simp
  from check_website_issues [of example_env both_websites
         "\<lparr>undefined_list = [], issues_list = [], wld = empty_world\<rparr>"] uri issues
  show ?thesis by simp
qed

text \<open>
  With both tags present and the Facebook page under \<open>contact:website\<close>, the URL kept
  is not the one of \<open>contact:website\<close>, and the Facebook hint is not among the issues.
\<close>

theorem website_resolution_counterexample:
  "has_key ''contact:website'' both_websites
   \<and> str_in ''facebook'' (dict_get both_websites ''contact:website'' [])
   \<and> fst (check_website_uri example_env both_websites
          \<lparr>undefined_list = [], issues_list = [], wld = empty_world\<rparr>)
       \<noteq> dict_get both_websites ''contact:website'' []
   \<and> ('''facebook' URI as website -> change to 'contact:facebook'' @ apos)
       \<notin> set (issues_list (check_website example_env both_websites
            \<lparr>undefined_list = [], issues_list = [], wld = empty_world\<rparr>))"
  by code_simp

subsection \<open>Two runs in a row\<close>

text \<open>
  C3. The claim asks that a second run within 28 days requests no URL that the first
  run checked. The first run over \<open>website_place\<close> with an empty URL data file requests
  \<open>https://a.example\<close> and rewrites the file empty, since no check stores its result;
  the second run, started from the file the first one wrote, requests the URL again,
  and reports something else when the site answers 500 by then.
\<close>

theorem second_run_requests_again:
  "main example_env [] (Some \<lparr>elements = [website_place]\<rparr>) = Inr website_place_run
   \<and> requests_made website_place_run = [''https://a.example'']
   \<and> url_data_file website_place_run = []
   \<and> main example_env (url_data_file website_place_run) (Some \<lparr>elements = [website_place]\<rparr>) =
       Inr website_place_run
   \<and> main (example_env\<lparr>requests_get := (\<lambda>log url. Status 500)\<rparr>)
         (url_data_file website_place_run) (Some \<lparr>elements = [website_place]\<rparr>)
       \<noteq> Inr website_place_run"
  by code_simp

end
